theory Spec2Isabelle
  imports Complex_Main
begin

section \<open>Numbers\<close>

text \<open>
  The TypeScript sources compute with \<^verbatim>\<open>number\<close>. The embedding reads every
  \<^verbatim>\<open>number\<close> as a \<^typ>\<open>real\<close> and every arithmetic operator as the exact
  operation, so rounding is not part of the model. It agrees with the program on the
  executions in which every intermediate value is an ordinary finite number. Where
  JavaScript would produce \<^verbatim>\<open>Infinity\<close> or \<^verbatim>\<open>NaN\<close> (a division by zero,
  the logarithm of a non-positive number, a negative base under a fractional exponent)
  HOL has some real number instead; a theorem below whose statement depends on such a
  value carries the hypothesis that excludes the case.
\<close>

definition Math_pow :: "real \<Rightarrow> real \<Rightarrow> real" where
  \<comment> \<open>\<^verbatim>\<open>Math.pow(x, y)\<close>: 1 for \<open>y = 0\<close>, \<open>exp (y * ln x)\<close> for \<open>0 < x\<close>,
      0 for \<open>x = 0\<close> and \<open>0 < y\<close>. A negative base, and the base 0 under a negative
      exponent, are outside the model.\<close>
  "Math_pow x y = (if y = 0 then 1 else x powr y)"

definition Math_log :: "real \<Rightarrow> real" where
  \<comment> \<open>\<^verbatim>\<open>Math.log(x)\<close>, the natural logarithm, for \<open>0 < x\<close>.\<close>
  "Math_log x = ln x"

definition Math_abs :: "real \<Rightarrow> real" where
  "Math_abs x = \<bar>x\<bar>"

definition Math_max :: "real \<Rightarrow> real \<Rightarrow> real" where
  "Math_max x y = max x y"

section \<open>The power-law curve: class \<^verbatim>\<open>BondingCurve\<close> of lib/bonding-curve.ts\<close>

record BondingCurveConfig =
  initialPrice :: real
  k :: real
  maxSupply :: real
  reserveRatio :: real

record TradeCalculation =
  inputAmount :: real
  outputAmount :: real
  priceAfter :: real
  priceImpact :: real
  slippage :: real
  fee :: real
  netAmount :: real

text \<open>
  An object of the class holds \<^verbatim>\<open>config\<close> and \<^verbatim>\<open>feeRate\<close>; every method below
  takes the two as its first arguments.
\<close>

definition getMaxPrice :: "BondingCurveConfig \<Rightarrow> real" where
  "getMaxPrice cfg = initialPrice cfg * Math_pow 1 (k cfg)"

definition calculatePrice :: "BondingCurveConfig \<Rightarrow> real \<Rightarrow> real" where
  "calculatePrice cfg supply =
     (if supply \<le> 0 then initialPrice cfg
      else if supply \<ge> maxSupply cfg then getMaxPrice cfg
      else initialPrice cfg * Math_pow (supply / maxSupply cfg) (k cfg))"

definition calculateIntegral :: "BondingCurveConfig \<Rightarrow> real \<Rightarrow> real \<Rightarrow> real" where
  \<comment> \<open>The second parameter, \<^verbatim>\<open>solAmount\<close>, is not used by the body.\<close>
  "calculateIntegral cfg supply solAmount =
     (if k cfg = 1 then initialPrice cfg * supply * Math_log (supply / maxSupply cfg + 1)
      else let exponent = k cfg + 1
           in (initialPrice cfg * maxSupply cfg / exponent)
                * Math_pow (supply / maxSupply cfg) exponent)"

definition tolerance :: real where
  "tolerance = 1 / 10 ^ 10"

text \<open>
  The \<^verbatim>\<open>for\<close> loop of \<^verbatim>\<open>solveForSupply\<close>. It leaves either through the
  \<^verbatim>\<open>return mid\<close> inside the body or by running out of iterations with the bracket
  \<open>[low, high]\<close> it has reached; the first argument of type \<^typ>\<open>nat\<close> is the number
  of iterations still to run.
\<close>

datatype bisect_exit = Converged real | Exhausted real real

fun bisect :: "BondingCurveConfig \<Rightarrow> real \<Rightarrow> real \<Rightarrow> nat \<Rightarrow> real \<Rightarrow> real \<Rightarrow> bisect_exit" where
  "bisect cfg currentSupply targetIntegral 0 low high = Exhausted low high"
| "bisect cfg currentSupply targetIntegral (Suc n) low high =
     (let mid = (low + high) / 2;
          integral = calculateIntegral cfg mid 0 - calculateIntegral cfg currentSupply 0
      in if Math_abs (integral - targetIntegral) < tolerance then Converged mid
         else if integral < targetIntegral
              then bisect cfg currentSupply targetIntegral n mid high
              else bisect cfg currentSupply targetIntegral n low mid)"

definition solveForSupply :: "BondingCurveConfig \<Rightarrow> real \<Rightarrow> real \<Rightarrow> real" where
  "solveForSupply cfg currentSupply targetIntegral =
     (case bisect cfg currentSupply targetIntegral 100 currentSupply (maxSupply cfg) of
        Converged mid \<Rightarrow> mid
      | Exhausted low high \<Rightarrow> (low + high) / 2)"

definition calculateBuyAmount ::
  "BondingCurveConfig \<Rightarrow> real \<Rightarrow> real \<Rightarrow> real \<Rightarrow> TradeCalculation" where
  "calculateBuyAmount cfg feeRate solAmount currentSupply =
     (let fee = solAmount * feeRate;
          netSolAmount = solAmount - fee;
          currentPrice = calculatePrice cfg currentSupply;
          integral = calculateIntegral cfg currentSupply netSolAmount;
          newSupply = solveForSupply cfg currentSupply integral;
          tokensOut = newSupply - currentSupply;
          newPrice = calculatePrice cfg newSupply;
          priceImpact = ((newPrice - currentPrice) / currentPrice) * 100;
          avgPrice = netSolAmount / tokensOut;
          slippage = ((avgPrice - currentPrice) / currentPrice) * 100
      in \<lparr> inputAmount = solAmount, outputAmount = tokensOut, priceAfter = newPrice,
           priceImpact = priceImpact, slippage = slippage, fee = fee,
           netAmount = tokensOut \<rparr>)"

datatype curve_error = CannotSellMoreThanSupply

definition calculateSellAmount ::
  "BondingCurveConfig \<Rightarrow> real \<Rightarrow> real \<Rightarrow> real \<Rightarrow> curve_error + TradeCalculation" where
  "calculateSellAmount cfg feeRate tokenAmount currentSupply =
     (if tokenAmount \<ge> currentSupply then Inl CannotSellMoreThanSupply
      else
        let currentPrice = calculatePrice cfg currentSupply;
            newSupply = currentSupply - tokenAmount;
            newPrice = calculatePrice cfg newSupply;
            integral = calculateIntegral cfg newSupply 0 - calculateIntegral cfg currentSupply 0;
            solOut = Math_abs integral;
            fee = solOut * feeRate;
            netSolOut = solOut - fee;
            priceImpact = ((currentPrice - newPrice) / currentPrice) * 100;
            avgPrice = solOut / tokenAmount;
            slippage = ((currentPrice - avgPrice) / currentPrice) * 100
        in Inr \<lparr> inputAmount = tokenAmount, outputAmount = netSolOut, priceAfter = newPrice,
                 priceImpact = priceImpact, slippage = slippage, fee = fee,
                 netAmount = netSolOut \<rparr>)"

definition validateTrade :: "BondingCurveConfig \<Rightarrow> real \<Rightarrow> real \<Rightarrow> bool \<Rightarrow> real \<Rightarrow> bool" where
  "validateTrade cfg feeRate amount isBuy currentSupply =
     (if amount \<le> 0 then False
      else if isBuy
        then let calculation = calculateBuyAmount cfg feeRate amount currentSupply
             in TradeCalculation.outputAmount calculation > 0
                \<and> currentSupply + TradeCalculation.outputAmount calculation \<le> maxSupply cfg
        else amount \<le> currentSupply)"

definition validateBondingCurveConfig :: "BondingCurveConfig \<Rightarrow> bool" where
  "validateBondingCurveConfig config =
     (initialPrice config > 0 \<and> k config > 0 \<and> maxSupply config > 0
      \<and> reserveRatio config > 0 \<and> reserveRatio config \<le> 1)"

definition DEFAULT_BONDING_CURVE_CONFIG :: BondingCurveConfig where
  "DEFAULT_BONDING_CURVE_CONFIG =
     \<lparr> initialPrice = 1 / 10000, k = 2, maxSupply = 1000000000, reserveRatio = 1 / 10 \<rparr>"

section \<open>The constant-product curve: hook \<^verbatim>\<open>useBondingCurve\<close>\<close>

record BondingCurveState =
  virtualSolReserves :: real
  virtualTokenReserves :: real
  realSolReserves :: real
  realTokenReserves :: real
  totalSupply :: real
  marketCap :: real
  progress :: real
  isComplete :: bool

record BondingCurveCalculation =
  outputAmount :: real
  priceImpact :: real
  newPrice :: real
  slippage :: real
  fee :: real

definition VIRTUAL_SOL_RESERVES :: real where "VIRTUAL_SOL_RESERVES = 30"
definition VIRTUAL_TOKEN_RESERVES :: real where "VIRTUAL_TOKEN_RESERVES = 1073000000"
definition REAL_SOL_RESERVES_TARGET :: real where "REAL_SOL_RESERVES_TARGET = 85"
definition TOTAL_SUPPLY :: real where "TOTAL_SUPPLY = 1000000000"
definition FEE_RATE :: real where "FEE_RATE = 1 / 100"
definition SLIPPAGE_TOLERANCE :: real where "SLIPPAGE_TOLERANCE = 5 / 100"

definition initialState :: BondingCurveState where
  \<comment> \<open>The argument of \<^verbatim>\<open>useState\<close>.\<close>
  "initialState =
     \<lparr> virtualSolReserves = VIRTUAL_SOL_RESERVES,
       virtualTokenReserves = VIRTUAL_TOKEN_RESERVES,
       realSolReserves = 0, realTokenReserves = 0, totalSupply = TOTAL_SUPPLY,
       marketCap = 0, progress = 0, isComplete = False \<rparr>"

definition getCurrentPrice :: "BondingCurveState \<Rightarrow> real" where
  "getCurrentPrice state = virtualSolReserves state / virtualTokenReserves state"

definition getMarketCap :: "BondingCurveState \<Rightarrow> real" where
  "getMarketCap state = (let price = getCurrentPrice state in price * totalSupply state)"

definition calculateBuy :: "BondingCurveState \<Rightarrow> real \<Rightarrow> BondingCurveCalculation" where
  "calculateBuy state solAmount =
     (let fee = solAmount * FEE_RATE;
          netSolAmount = solAmount - fee;
          k = virtualSolReserves state * virtualTokenReserves state;
          newSolReserves = virtualSolReserves state + netSolAmount;
          newTokenReserves = k / newSolReserves;
          outputAmount = virtualTokenReserves state - newTokenReserves;
          oldPrice = getCurrentPrice state;
          newPrice = newSolReserves / newTokenReserves;
          priceImpact = ((newPrice - oldPrice) / oldPrice) * 100;
          slippage = Math_abs priceImpact
      in \<lparr> outputAmount = outputAmount, priceImpact = priceImpact, newPrice = newPrice,
           slippage = slippage, fee = fee \<rparr>)"

definition calculateSell :: "BondingCurveState \<Rightarrow> real \<Rightarrow> BondingCurveCalculation" where
  "calculateSell state tokenAmount =
     (let k = virtualSolReserves state * virtualTokenReserves state;
          newTokenReserves = virtualTokenReserves state + tokenAmount;
          newSolReserves = k / newTokenReserves;
          grossSolAmount = virtualSolReserves state - newSolReserves;
          fee = grossSolAmount * FEE_RATE;
          outputAmount = grossSolAmount - fee;
          oldPrice = getCurrentPrice state;
          newPrice = newSolReserves / newTokenReserves;
          priceImpact = ((newPrice - oldPrice) / oldPrice) * 100;
          slippage = Math_abs priceImpact
      in \<lparr> outputAmount = outputAmount, priceImpact = priceImpact, newPrice = newPrice,
           slippage = slippage, fee = fee \<rparr>)"

text \<open>
  \<^verbatim>\<open>executeBuy\<close> and \<^verbatim>\<open>executeSell\<close> return the transaction signature and
  replace the state, or set the hook's error message and return \<^verbatim>\<open>null\<close> with the
  state as it was. The model returns the new state on the right and the error on the
  left. The flag \<open>walletConnected\<close> stands for \<^verbatim>\<open>publicKey\<close>, \<^verbatim>\<open>signTransaction\<close>
  and \<^verbatim>\<open>tokenMint\<close> all being present. One call runs to its end before the next
  starts, so the state read by \<^verbatim>\<open>calculateBuy\<close> is the \<^verbatim>\<open>prevState\<close> of the
  update.
\<close>

datatype hook_error = WalletNotConnected | SlippageTooHigh real

definition executeBuy :: "bool \<Rightarrow> BondingCurveState \<Rightarrow> real \<Rightarrow> hook_error + BondingCurveState" where
  "executeBuy walletConnected state solAmount =
     (if \<not> walletConnected then Inl WalletNotConnected
      else
        let calculation = calculateBuy state solAmount
        in if slippage calculation > SLIPPAGE_TOLERANCE * 100
           then Inl (SlippageTooHigh (slippage calculation))
           else Inr (state
                  \<lparr> virtualSolReserves := virtualSolReserves state + (solAmount - fee calculation),
                    virtualTokenReserves := virtualTokenReserves state - outputAmount calculation,
                    realSolReserves := realSolReserves state + (solAmount - fee calculation) \<rparr>))"

definition executeSell :: "bool \<Rightarrow> BondingCurveState \<Rightarrow> real \<Rightarrow> hook_error + BondingCurveState" where
  "executeSell walletConnected state tokenAmount =
     (if \<not> walletConnected then Inl WalletNotConnected
      else
        let calculation = calculateSell state tokenAmount
        in if slippage calculation > SLIPPAGE_TOLERANCE * 100
           then Inl (SlippageTooHigh (slippage calculation))
           else Inr (state
                  \<lparr> virtualSolReserves := virtualSolReserves state - outputAmount calculation,
                    virtualTokenReserves := virtualTokenReserves state + tokenAmount,
                    realSolReserves :=
                      Math_max 0 (realSolReserves state - outputAmount calculation) \<rparr>))"

text \<open>
  A run of \<^verbatim>\<open>executeBuy\<close> calls, one after the other, each on the state the
  previous one left; the run ends at the first call that fails.
\<close>

fun executeBuys :: "bool \<Rightarrow> BondingCurveState \<Rightarrow> real list \<Rightarrow> hook_error + BondingCurveState" where
  "executeBuys c st [] = Inr st"
| "executeBuys c st (q # qs) =
     (case executeBuy c st q of Inl e \<Rightarrow> Inl e | Inr st' \<Rightarrow> executeBuys c st' qs)"

section \<open>Inputs of the worked examples\<close>

definition scenarioB :: BondingCurveConfig where
  \<comment> \<open>The power-law configuration of the specification's scenario B.\<close>
  "scenarioB = \<lparr> initialPrice = 1, k = 1, maxSupply = 100, reserveRatio = 1 / 10 \<rparr>"

definition stateAfterBuy :: BondingCurveState where
  \<comment> \<open>The state that a buy of half a SOL leaves behind the initial state.\<close>
  "stateAfterBuy = initialState \<lparr> virtualSolReserves := 6099 / 200,
      virtualTokenReserves := 2146000000000 / 2033, realSolReserves := 99 / 200 \<rparr>"

definition stateAfterSell :: BondingCurveState where
  \<comment> \<open>The state after the tokens of that buy have been sold back.\<close>
  "stateAfterSell = initialState \<lparr> virtualSolReserves := 600099 / 20000,
      virtualTokenReserves := 1073000000, realSolReserves := 99 / 20000 \<rparr>"

definition stateBelowTarget :: BondingCurveState where
  \<comment> \<open>The state after 122 buys of 0.7 SOL from the initial state.\<close>
  "stateBelowTarget = initialState \<lparr> virtualSolReserves := 57273 / 500,
      virtualTokenReserves := 5365000000000 / 19091, realSolReserves := 42273 / 500 \<rparr>"

definition stateAtTarget :: BondingCurveState where
  \<comment> \<open>The state after 123 buys of 0.7 SOL from the initial state.\<close>
  "stateAtTarget = initialState \<lparr> virtualSolReserves := 115239 / 1000,
      virtualTokenReserves := 10730000000000 / 38413, realSolReserves := 85239 / 1000 \<rparr>"

definition stateBeyondTarget :: BondingCurveState where
  \<comment> \<open>The state after one more buy of 0.7 SOL.\<close>
  "stateBeyondTarget = initialState \<lparr> virtualSolReserves := 28983 / 250,
      virtualTokenReserves := 2682500000000 / 9661, realSolReserves := 21483 / 250 \<rparr>"

section \<open>Facts about the numeric primitives\<close>

lemmas hook_constants = VIRTUAL_SOL_RESERVES_def VIRTUAL_TOKEN_RESERVES_def FEE_RATE_def
  SLIPPAGE_TOLERANCE_def TOTAL_SUPPLY_def REAL_SOL_RESERVES_TARGET_def

lemma Math_pow_one: "Math_pow 1 y = 1"
  by (simp add: Math_pow_def)

lemma Math_pow_le_one: "0 \<le> x \<Longrightarrow> x \<le> 1 \<Longrightarrow> 0 \<le> y \<Longrightarrow> Math_pow x y \<le> 1"
  by (simp add: Math_pow_def powr_le1)

lemma Math_pow_mono: "0 \<le> x \<Longrightarrow> x \<le> x' \<Longrightarrow> 0 \<le> y \<Longrightarrow> Math_pow x y \<le> Math_pow x' y"
  by (simp add: Math_pow_def powr_mono2)

lemma tolerance_pos: "0 < tolerance"
  by (simp add: tolerance_def)

section \<open>The power-law price\<close>

lemma getMaxPrice_eq: "getMaxPrice cfg = initialPrice cfg"
  by (simp add: getMaxPrice_def Math_pow_one)

lemma calculatePrice_le_initial:
  assumes "0 \<le> initialPrice cfg" "0 \<le> k cfg"
  shows "calculatePrice cfg s \<le> initialPrice cfg"
proof -
  { assume a: "0 < s" "s < maxSupply cfg"
    then have "0 \<le> s / maxSupply cfg" "s / maxSupply cfg \<le> 1" by simp_all
    then have "Math_pow (s / maxSupply cfg) (k cfg) \<le> 1"
      using assms(2) by (rule Math_pow_le_one)
    then have "initialPrice cfg * Math_pow (s / maxSupply cfg) (k cfg) \<le> initialPrice cfg * 1"
      using assms(1) by (rule mult_left_mono) }
  then show ?thesis
    by (auto simp: calculatePrice_def getMaxPrice_eq)
qed

lemma calculatePrice_mono_pos:
  assumes ip: "0 \<le> initialPrice cfg" and kk: "0 \<le> k cfg" and s: "0 < s" and ds: "0 < ds"
  shows "calculatePrice cfg s \<le> calculatePrice cfg (s + ds)"
proof (cases "s + ds \<ge> maxSupply cfg")
  case True
  then have "calculatePrice cfg (s + ds) = initialPrice cfg"
    using s ds by (simp add: calculatePrice_def getMaxPrice_eq)
  then show ?thesis using calculatePrice_le_initial [OF ip kk, of s] by simp
next
  case False
  then have lt: "s < maxSupply cfg" "s + ds < maxSupply cfg" using ds by simp_all
  then have m: "0 < maxSupply cfg" using s by simp
  have "0 \<le> s / maxSupply cfg" "s / maxSupply cfg \<le> (s + ds) / maxSupply cfg"
    using s ds m by (simp_all add: divide_right_mono)
  then have "Math_pow (s / maxSupply cfg) (k cfg) \<le> Math_pow ((s + ds) / maxSupply cfg) (k cfg)"
    using kk by (rule Math_pow_mono)
  then have "initialPrice cfg * Math_pow (s / maxSupply cfg) (k cfg)
             \<le> initialPrice cfg * Math_pow ((s + ds) / maxSupply cfg) (k cfg)"
    using ip by (rule mult_left_mono)
  then show ?thesis using lt s ds by (simp add: calculatePrice_def)
qed

text \<open>
  Claim C10. With \<open>initialPrice\<close>, \<open>k\<close> and \<open>maxSupply\<close> positive, the power-law price
  never exceeds \<open>initialPrice\<close>, at any supply; \<^verbatim>\<open>getMaxPrice\<close>, the value that
  \<^verbatim>\<open>calculatePrice\<close> returns for a supply of \<open>maxSupply\<close> or more, is exactly
  \<open>initialPrice\<close>.
\<close>

theorem price_bounded_by_initialPrice:
  assumes "0 < initialPrice cfg" "0 < k cfg" "0 < maxSupply cfg"
  shows "calculatePrice cfg s \<le> initialPrice cfg \<and> getMaxPrice cfg = initialPrice cfg
         \<and> (maxSupply cfg \<le> s \<longrightarrow> calculatePrice cfg s = getMaxPrice cfg)"
  using assms calculatePrice_le_initial [of cfg s]
  by (auto simp: getMaxPrice_eq calculatePrice_def)

theorem price_bounded_by_initialPrice_witness:
  "0 < initialPrice DEFAULT_BONDING_CURVE_CONFIG \<and> 0 < k DEFAULT_BONDING_CURVE_CONFIG
   \<and> 0 < maxSupply DEFAULT_BONDING_CURVE_CONFIG
   \<and> calculatePrice DEFAULT_BONDING_CURVE_CONFIG 500000000 = 1 / 40000
   \<and> calculatePrice DEFAULT_BONDING_CURVE_CONFIG 500000000
        \<le> initialPrice DEFAULT_BONDING_CURVE_CONFIG
   \<and> maxSupply DEFAULT_BONDING_CURVE_CONFIG \<le> 1000000000
   \<and> calculatePrice DEFAULT_BONDING_CURVE_CONFIG 1000000000
        = getMaxPrice DEFAULT_BONDING_CURVE_CONFIG
   \<and> getMaxPrice DEFAULT_BONDING_CURVE_CONFIG = initialPrice DEFAULT_BONDING_CURVE_CONFIG"
  using price_bounded_by_initialPrice [of DEFAULT_BONDING_CURVE_CONFIG 500000000]
    price_bounded_by_initialPrice [of DEFAULT_BONDING_CURVE_CONFIG 1000000000]
  by (simp add: DEFAULT_BONDING_CURVE_CONFIG_def calculatePrice_def Math_pow_def
      power2_eq_square getMaxPrice_def)

section \<open>The constant-product price along a trade\<close>

lemma executeBuy_Inr:
  assumes "executeBuy c st q = Inr st'"
  shows "st' = st \<lparr> virtualSolReserves := virtualSolReserves st + (q - q * FEE_RATE),
                    virtualTokenReserves := virtualTokenReserves st
                       - (virtualTokenReserves st
                          - virtualSolReserves st * virtualTokenReserves st
                            / (virtualSolReserves st + (q - q * FEE_RATE))),
                    realSolReserves := realSolReserves st + (q - q * FEE_RATE) \<rparr>"
  using assms by (simp add: executeBuy_def calculateBuy_def Let_def split: if_splits)

lemma executeSell_Inr:
  assumes "executeSell c st b = Inr st'"
  shows "st' = st \<lparr> virtualSolReserves := virtualSolReserves st
                       - ((virtualSolReserves st
                            - virtualSolReserves st * virtualTokenReserves st
                              / (virtualTokenReserves st + b))
                          - (virtualSolReserves st
                            - virtualSolReserves st * virtualTokenReserves st
                              / (virtualTokenReserves st + b)) * FEE_RATE),
                    virtualTokenReserves := virtualTokenReserves st + b,
                    realSolReserves := Math_max 0 (realSolReserves st
                       - ((virtualSolReserves st
                            - virtualSolReserves st * virtualTokenReserves st
                              / (virtualTokenReserves st + b))
                          - (virtualSolReserves st
                            - virtualSolReserves st * virtualTokenReserves st
                              / (virtualTokenReserves st + b)) * FEE_RATE)) \<rparr>"
  using assms by (simp add: executeSell_def calculateSell_def Let_def split: if_splits)

lemma buy_price_algebra:
  fixes vs vt n :: real
  assumes "0 < vs" "0 < vt" "0 \<le> n"
  shows "vs / vt \<le> (vs + n) / (vt - (vt - vs * vt / (vs + n)))"
proof -
  have nz: "0 < vs + n" using assms by simp
  have "vs * vs \<le> (vs + n) * (vs + n)" using assms by (intro mult_mono) simp_all
  moreover have "0 \<le> vs * vt" using assms by simp
  ultimately have "vs * vs / (vs * vt) \<le> (vs + n) * (vs + n) / (vs * vt)"
    by (rule divide_right_mono)
  moreover have "vs * vs / (vs * vt) = vs / vt" using assms by simp
  moreover have "(vs + n) / (vt - (vt - vs * vt / (vs + n))) = (vs + n) * (vs + n) / (vs * vt)"
    using nz by simp
  ultimately show ?thesis by simp
qed

lemma executeBuy_price_mono:
  assumes "0 < virtualSolReserves st" "0 < virtualTokenReserves st" "0 < q"
      and "executeBuy c st q = Inr st'"
  shows "getCurrentPrice st \<le> getCurrentPrice st'"
proof -
  have "0 \<le> q - q * FEE_RATE" using assms(3) by (simp add: FEE_RATE_def)
  from buy_price_algebra [OF assms(1,2) this] show ?thesis
    by (simp add: executeBuy_Inr [OF assms(4)] getCurrentPrice_def)
qed

lemma fee_part_le:
  fixes g :: real
  assumes "0 \<le> g"
  shows "g * (1 / 100) \<le> g"
  using assms by simp

lemma sell_price_algebra:
  fixes vs vt b :: real
  assumes "0 < vs" "0 < vt" "0 \<le> b"
  shows "(vs - ((vs - vs * vt / (vt + b)) - (vs - vs * vt / (vt + b)) * (1 / 100))) / (vt + b)
         \<le> vs / vt"
proof -
  have nz: "0 < vt + b" using assms by simp
  have g: "vs - vs * vt / (vt + b) = vs * b / (vt + b)"
    using nz by (simp add: field_simps)
  have "0 \<le> vs * b / (vt + b)" using assms nz by simp
  then have "vs - (vs * b / (vt + b) - vs * b / (vt + b) * (1 / 100)) \<le> vs"
    using fee_part_le [of "vs * b / (vt + b)"] by simp
  then have "(vs - (vs * b / (vt + b) - vs * b / (vt + b) * (1 / 100))) / (vt + b)
             \<le> vs / (vt + b)"
    using nz by (simp add: divide_right_mono)
  also have "vs / (vt + b) \<le> vs / vt"
    using assms by (simp add: frac_le)
  finally show ?thesis by (simp only: g)
qed

lemma executeSell_price_mono:
  assumes "0 < virtualSolReserves st" "0 < virtualTokenReserves st" "0 < b"
      and "executeSell c st b = Inr st'"
  shows "getCurrentPrice st' \<le> getCurrentPrice st"
proof -
  have "0 \<le> b" using assms(3) by simp
  from sell_price_algebra [OF assms(1,2) this] show ?thesis
    by (simp add: executeSell_Inr [OF assms(4)] getCurrentPrice_def FEE_RATE_def)
qed

lemma buy_example: "executeBuy True initialState (1 / 2) = Inr stateAfterBuy"
  by (simp add: executeBuy_def calculateBuy_def Let_def initialState_def stateAfterBuy_def
      getCurrentPrice_def Math_abs_def hook_constants)

lemma sell_example: "executeSell True stateAfterBuy (35409000000 / 2033) = Inr stateAfterSell"
  by (simp add: executeSell_def calculateSell_def Let_def initialState_def stateAfterBuy_def
      stateAfterSell_def getCurrentPrice_def Math_abs_def Math_max_def hook_constants)

text \<open>
  Claim C1, as stated: the price does not fall when the supply grows from any \<open>s\<close> in
  \<open>[0, maxSupply]\<close>. In scenario B the supply 0 is priced at \<open>initialPrice = 1\<close> by the
  clamp of \<^verbatim>\<open>calculatePrice\<close>, and the supply 50 at \<open>1/2\<close>.
\<close>

theorem price_monotone_counterexample:
  "calculatePrice scenarioB 0 = 1 \<and> calculatePrice scenarioB (0 + 50) = 1 / 2
   \<and> \<not> (calculatePrice scenarioB 0 \<le> calculatePrice scenarioB (0 + 50))"
  by (simp add: calculatePrice_def scenarioB_def Math_pow_def)

text \<open>
  Claim C1, amended. Power law: for \<open>initialPrice \<ge> 0\<close> and \<open>k \<ge> 0\<close>, the price does
  not fall when the supply grows from any \<open>s > 0\<close>. Constant product: with positive
  virtual reserves, the price \<^verbatim>\<open>getCurrentPrice\<close> after a successful
  \<^verbatim>\<open>executeBuy\<close> of a positive amount is at least the price before it, and the price
  after a successful \<^verbatim>\<open>executeSell\<close> of a positive amount is at most the price
  before it.
\<close>

theorem price_monotone_amended:
  "(0 \<le> initialPrice cfg \<and> 0 \<le> k cfg \<and> 0 < s \<and> 0 < ds
      \<longrightarrow> calculatePrice cfg s \<le> calculatePrice cfg (s + ds))
   \<and> (0 < virtualSolReserves st \<and> 0 < virtualTokenReserves st \<and> 0 < q
        \<and> executeBuy c st q = Inr st'
      \<longrightarrow> getCurrentPrice st \<le> getCurrentPrice st')
   \<and> (0 < virtualSolReserves t \<and> 0 < virtualTokenReserves t \<and> 0 < b
        \<and> executeSell c t b = Inr t'
      \<longrightarrow> getCurrentPrice t' \<le> getCurrentPrice t)"
  using calculatePrice_mono_pos [of cfg s ds] executeBuy_price_mono [of st q c st']
    executeSell_price_mono [of t b c t']
  by blast

theorem price_monotone_amended_witness:
  "0 \<le> initialPrice scenarioB \<and> 0 \<le> k scenarioB \<and> (0::real) < 25
   \<and> calculatePrice scenarioB 25 = 1 / 4 \<and> calculatePrice scenarioB (25 + 25) = 1 / 2
   \<and> calculatePrice scenarioB 25 \<le> calculatePrice scenarioB (25 + 25)
   \<and> 0 < virtualSolReserves initialState \<and> 0 < virtualTokenReserves initialState
   \<and> (0::real) < 1 / 2
   \<and> executeBuy True initialState (1 / 2) = Inr stateAfterBuy
   \<and> getCurrentPrice initialState \<le> getCurrentPrice stateAfterBuy
   \<and> 0 < virtualSolReserves stateAfterBuy \<and> 0 < virtualTokenReserves stateAfterBuy
   \<and> (0::real) < 35409000000 / 2033
   \<and> executeSell True stateAfterBuy (35409000000 / 2033) = Inr stateAfterSell
   \<and> getCurrentPrice stateAfterSell \<le> getCurrentPrice stateAfterBuy"
  using price_monotone_amended [of scenarioB 25 25 initialState "1 / 2" True stateAfterBuy
      stateAfterBuy "35409000000 / 2033" stateAfterSell] buy_example sell_example
  by (simp add: scenarioB_def calculatePrice_def Math_pow_def initialState_def hook_constants
      stateAfterBuy_def stateAfterSell_def getCurrentPrice_def)

section \<open>Graduation\<close>

lemma slippage_within_tolerance:
  fixes vs vt n :: real
  assumes "0 < vs" "0 < vt" "0 \<le> n" "1000 * n \<le> 24 * vs"
  shows "\<bar>((vs + n) / (vs * vt / (vs + n)) - vs / vt) / (vs / vt) * 100\<bar> \<le> 5"
proof -
  define A where "A = n * vs"
  define B where "B = n * n"
  define V where "V = vs * vs"
  define X where "X = (2 * A + B) / V"
  have nz: "0 < vs + n" using assms by simp
  have e: "((vs + n) / (vs * vt / (vs + n)) - vs / vt) / (vs / vt)
        = ((vs + n) * (vs + n) - vs * vs) / (vs * vs)"
    using nz assms(1,2) by (simp add: field_simps)
  have d: "(vs + n) * (vs + n) - vs * vs = 2 * A + B"
    by (simp add: A_def B_def algebra_simps)
  have le: "n \<le> 24 / 1000 * vs" using assms(4) by simp
  have "n * vs \<le> (24 / 1000 * vs) * vs"
    using le assms(1) by (intro mult_right_mono) simp_all
  then have a: "A \<le> 24 / 1000 * V" by (simp add: A_def V_def)
  have "n * n \<le> n * (24 / 1000 * vs)"
    using le assms(3) by (intro mult_left_mono) simp_all
  then have b: "B \<le> 24 / 1000 * A" by (simp add: A_def B_def)
  have v: "0 < V" using assms(1) by (simp add: V_def)
  have a0: "0 \<le> A" "0 \<le> B" using assms(1,3) by (simp_all add: A_def B_def)
  have u: "2 * A + B \<le> (1 / 20) * V" using a b v by linarith
  have "X \<le> 1 / 20"
    unfolding X_def using u v by (simp only: pos_divide_le_eq)
  moreover have "0 \<le> X"
    unfolding X_def using a0 v by simp
  ultimately have "\<bar>X * 100\<bar> \<le> 5" by simp
  then show ?thesis unfolding e d X_def V_def .
qed

lemma slippage_small:
  fixes vs vt :: real
  assumes "30 \<le> vs" "0 < vt"
  shows "\<bar>((vs + 693 / 1000) / (vs * vt / (vs + 693 / 1000)) - vs / vt) / (vs / vt) * 100\<bar> \<le> 5"
  using assms by (intro slippage_within_tolerance) simp_all

lemma calculateBuy_fee: "fee (calculateBuy st q) = q * FEE_RATE"
  by (simp add: calculateBuy_def Let_def)

lemma calculateBuy_outputAmount:
  "outputAmount (calculateBuy st q)
   = virtualTokenReserves st
     - virtualSolReserves st * virtualTokenReserves st
       / (virtualSolReserves st + (q - q * FEE_RATE))"
  by (simp add: calculateBuy_def Let_def)

lemma calculateBuy_slippage:
  "slippage (calculateBuy st q)
   = \<bar>((virtualSolReserves st + (q - q * FEE_RATE))
         / (virtualSolReserves st * virtualTokenReserves st
            / (virtualSolReserves st + (q - q * FEE_RATE)))
       - virtualSolReserves st / virtualTokenReserves st)
      / (virtualSolReserves st / virtualTokenReserves st) * 100\<bar>"
  unfolding calculateBuy_def Let_def getCurrentPrice_def Math_abs_def by simp

lemma executeBuy_step:
  assumes "30 \<le> virtualSolReserves st" "0 < virtualTokenReserves st"
  shows "executeBuy True st (7 / 10)
         = Inr (st \<lparr> virtualSolReserves := virtualSolReserves st + 693 / 1000,
                     virtualTokenReserves := virtualSolReserves st * virtualTokenReserves st
                        / (virtualSolReserves st + 693 / 1000),
                     realSolReserves := realSolReserves st + 693 / 1000 \<rparr>)"
proof -
  have n: "7 / 10 - 7 / 10 * FEE_RATE = 693 / 1000" by (simp add: FEE_RATE_def)
  have "slippage (calculateBuy st (7 / 10)) \<le> 5"
    unfolding calculateBuy_slippage n using assms by (rule slippage_small)
  then have ok: "\<not> slippage (calculateBuy st (7 / 10)) > SLIPPAGE_TOLERANCE * 100"
    by (simp add: SLIPPAGE_TOLERANCE_def)
  have "executeBuy True st (7 / 10)
        = Inr (st \<lparr> virtualSolReserves := virtualSolReserves st + (7 / 10 - 7 / 10 * FEE_RATE),
                    virtualTokenReserves := virtualTokenReserves st
                      - (virtualTokenReserves st
                         - virtualSolReserves st * virtualTokenReserves st
                           / (virtualSolReserves st + (7 / 10 - 7 / 10 * FEE_RATE))),
                    realSolReserves := realSolReserves st + (7 / 10 - 7 / 10 * FEE_RATE) \<rparr>)"
    unfolding executeBuy_def Let_def calculateBuy_fee calculateBuy_outputAmount
    using ok by simp
  then show ?thesis unfolding n by simp
qed

lemma executeBuys_steps:
  assumes "30 \<le> virtualSolReserves st" "0 < virtualTokenReserves st"
  shows "executeBuys True st (replicate n (7 / 10))
         = Inr (st \<lparr> virtualSolReserves := virtualSolReserves st + real n * (693 / 1000),
                     virtualTokenReserves := virtualSolReserves st * virtualTokenReserves st
                        / (virtualSolReserves st + real n * (693 / 1000)),
                     realSolReserves := realSolReserves st + real n * (693 / 1000) \<rparr>)"
  using assms
proof (induction n arbitrary: st)
  case 0
  then show ?case by simp
next
  case (Suc n)
  let ?st' = "st \<lparr> virtualSolReserves := virtualSolReserves st + 693 / 1000,
                     virtualTokenReserves := virtualSolReserves st * virtualTokenReserves st
                        / (virtualSolReserves st + 693 / 1000),
                     realSolReserves := realSolReserves st + 693 / 1000 \<rparr>"
  have s: "executeBuy True st (7 / 10) = Inr ?st'"
    using Suc.prems by (rule executeBuy_step)
  have p: "30 \<le> virtualSolReserves ?st'" "0 < virtualTokenReserves ?st'"
    using Suc.prems by simp_all
  have nz: "virtualSolReserves st + 693 / 1000 \<noteq> 0" using Suc.prems by simp
  have e1: "virtualSolReserves st + 693 / 1000 + real n * (693 / 1000)
            = virtualSolReserves st + real (Suc n) * (693 / 1000)"
    by (simp add: algebra_simps)
  have e2: "(virtualSolReserves st + 693 / 1000)
              * (virtualSolReserves st * virtualTokenReserves st
                  / (virtualSolReserves st + 693 / 1000))
            = virtualSolReserves st * virtualTokenReserves st"
    using nz by simp
  have e3: "realSolReserves st + 693 / 1000 + real n * (693 / 1000)
            = realSolReserves st + real (Suc n) * (693 / 1000)"
    by (simp add: algebra_simps)
  have "executeBuys True st (replicate (Suc n) (7 / 10))
        = executeBuys True ?st' (replicate n (7 / 10))"
    using s by simp
  also have "\<dots> = Inr (?st' \<lparr> virtualSolReserves := virtualSolReserves ?st' + real n * (693 / 1000),
                     virtualTokenReserves := virtualSolReserves ?st' * virtualTokenReserves ?st'
                        / (virtualSolReserves ?st' + real n * (693 / 1000)),
                     realSolReserves := realSolReserves ?st' + real n * (693 / 1000) \<rparr>)"
    by (rule Suc.IH [OF p])
  also have "\<dots> = Inr (st \<lparr> virtualSolReserves :=
                       virtualSolReserves st + 693 / 1000 + real n * (693 / 1000),
                     virtualTokenReserves := (virtualSolReserves st + 693 / 1000)
                        * (virtualSolReserves st * virtualTokenReserves st
                            / (virtualSolReserves st + 693 / 1000))
                        / (virtualSolReserves st + 693 / 1000 + real n * (693 / 1000)),
                     realSolReserves :=
                       realSolReserves st + 693 / 1000 + real n * (693 / 1000) \<rparr>)"
    by simp
  finally show ?case unfolding e1 e2 e3 .
qed

lemma initialState_reserves:
  "30 \<le> virtualSolReserves initialState" "0 < virtualTokenReserves initialState"
  by (simp_all add: initialState_def hook_constants)

lemma buys_below_example:
  "executeBuys True initialState (replicate 122 (7 / 10)) = Inr stateBelowTarget"
  unfolding executeBuys_steps [OF initialState_reserves]
  by (simp add: initialState_def stateBelowTarget_def hook_constants)

lemma buys_example:
  "executeBuys True initialState (replicate 123 (7 / 10)) = Inr stateAtTarget"
  unfolding executeBuys_steps [OF initialState_reserves]
  by (simp add: initialState_def stateAtTarget_def hook_constants)

lemma buy_beyond_example: "executeBuy True stateAtTarget (7 / 10) = Inr stateBeyondTarget"
proof -
  have t: "30 \<le> virtualSolReserves stateAtTarget" "0 < virtualTokenReserves stateAtTarget"
    by (simp_all add: stateAtTarget_def initialState_def)
  show ?thesis
    unfolding executeBuy_step [OF t]
    by (simp add: initialState_def stateAtTarget_def stateBeyondTarget_def hook_constants)
qed

lemma executeBuy_accepts:
  assumes "slippage (calculateBuy st q) \<le> SLIPPAGE_TOLERANCE * 100"
  shows "executeBuy True st q
         = Inr (st \<lparr> virtualSolReserves := virtualSolReserves st + (q - fee (calculateBuy st q)),
                     virtualTokenReserves :=
                       virtualTokenReserves st - outputAmount (calculateBuy st q),
                     realSolReserves := realSolReserves st + (q - fee (calculateBuy st q)) \<rparr>)"
  using assms by (simp add: executeBuy_def Let_def)

lemma executeBuy_small_input:
  assumes "0 < virtualSolReserves st" "0 < virtualTokenReserves st" "0 < q"
      and "1000 * (q - q * FEE_RATE) \<le> 24 * virtualSolReserves st"
  shows "slippage (calculateBuy st q) \<le> SLIPPAGE_TOLERANCE * 100"
proof -
  have "0 \<le> q - q * FEE_RATE" using assms(3) by (simp add: FEE_RATE_def)
  then have "slippage (calculateBuy st q) \<le> 5"
    unfolding calculateBuy_slippage using assms(1,2,4)
    by (intro slippage_within_tolerance)
  then show ?thesis by (simp add: SLIPPAGE_TOLERANCE_def)
qed

text \<open>
  Claim C2, as stated: the buy that takes \<^verbatim>\<open>realSolReserves\<close> to the target of 85
  sets \<^verbatim>\<open>isComplete\<close>, and every later \<^verbatim>\<open>executeBuy\<close> fails. From the initial
  state, 122 buys of 0.7 SOL succeed and leave \<^verbatim>\<open>realSolReserves\<close> at 84.546; the
  123rd succeeds and takes it to 85.239, with \<^verbatim>\<open>isComplete\<close> false after it; and
  the next buy succeeds.
\<close>

theorem graduation_counterexample:
  "realSolReserves initialState = 0
   \<and> executeBuys True initialState (replicate 122 (7 / 10)) = Inr stateBelowTarget
   \<and> realSolReserves stateBelowTarget < REAL_SOL_RESERVES_TARGET
   \<and> executeBuys True initialState (replicate 123 (7 / 10)) = Inr stateAtTarget
   \<and> realSolReserves stateAtTarget \<ge> REAL_SOL_RESERVES_TARGET
   \<and> \<not> isComplete stateAtTarget
   \<and> executeBuy True stateAtTarget (7 / 10) = Inr stateBeyondTarget"
  using buys_below_example buys_example buy_beyond_example
  by (simp add: initialState_def stateBelowTarget_def stateAtTarget_def hook_constants)


text \<open>
  Claim C2, amended. \<^verbatim>\<open>executeBuy\<close> has no graduation gate. With the wallet
  present it succeeds whenever the slippage it computes is at most 5 percent, and then
  adds the net input to \<^verbatim>\<open>virtualSolReserves\<close> and \<^verbatim>\<open>realSolReserves\<close> and
  takes the output from \<^verbatim>\<open>virtualTokenReserves\<close>; the slippage is within the
  tolerance for every positive amount whose net input is at most 2.4 percent of
  \<^verbatim>\<open>virtualSolReserves\<close>, in every state with positive virtual reserves, whatever
  \<^verbatim>\<open>realSolReserves\<close> has reached. The call fails when the slippage is above
  5 percent, and when there is no wallet. What becomes of \<^verbatim>\<open>isComplete\<close> is not
  part of the statement.
\<close>

theorem executeBuy_has_no_graduation_gate:
  "(slippage (calculateBuy st q) \<le> SLIPPAGE_TOLERANCE * 100 \<longrightarrow>
      (\<exists>st'. executeBuy True st q = Inr st'
         \<and> virtualSolReserves st' = virtualSolReserves st + (q - fee (calculateBuy st q))
         \<and> virtualTokenReserves st'
             = virtualTokenReserves st - outputAmount (calculateBuy st q)
         \<and> realSolReserves st' = realSolReserves st + (q - fee (calculateBuy st q))))
   \<and> (0 < virtualSolReserves st \<and> 0 < virtualTokenReserves st \<and> 0 < q
        \<and> 1000 * (q - q * FEE_RATE) \<le> 24 * virtualSolReserves st \<longrightarrow>
      slippage (calculateBuy st q) \<le> SLIPPAGE_TOLERANCE * 100)
   \<and> (SLIPPAGE_TOLERANCE * 100 < slippage (calculateBuy t r) \<longrightarrow>
      executeBuy True t r = Inl (SlippageTooHigh (slippage (calculateBuy t r))))
   \<and> executeBuy False u p = Inl WalletNotConnected"
proof -
  have "slippage (calculateBuy st q) \<le> SLIPPAGE_TOLERANCE * 100 \<Longrightarrow>
      (\<exists>st'. executeBuy True st q = Inr st'
         \<and> virtualSolReserves st' = virtualSolReserves st + (q - fee (calculateBuy st q))
         \<and> virtualTokenReserves st'
             = virtualTokenReserves st - outputAmount (calculateBuy st q)
         \<and> realSolReserves st' = realSolReserves st + (q - fee (calculateBuy st q)))"
    by (simp add: executeBuy_accepts)
  moreover have "SLIPPAGE_TOLERANCE * 100 < slippage (calculateBuy t r) \<Longrightarrow>
      executeBuy True t r = Inl (SlippageTooHigh (slippage (calculateBuy t r)))"
    by (simp add: executeBuy_def Let_def)
  moreover have "executeBuy False u p = Inl WalletNotConnected"
    by (simp add: executeBuy_def)
  ultimately show ?thesis
    using executeBuy_small_input [of st q] by blast
qed

theorem executeBuy_has_no_graduation_gate_witness:
  "0 < virtualSolReserves stateAtTarget \<and> 0 < virtualTokenReserves stateAtTarget
   \<and> (0::real) < 7 / 10
   \<and> 1000 * (7 / 10 - 7 / 10 * FEE_RATE) \<le> 24 * virtualSolReserves stateAtTarget
   \<and> REAL_SOL_RESERVES_TARGET \<le> realSolReserves stateAtTarget
   \<and> slippage (calculateBuy stateAtTarget (7 / 10)) \<le> SLIPPAGE_TOLERANCE * 100
   \<and> executeBuy True stateAtTarget (7 / 10) = Inr stateBeyondTarget
   \<and> virtualSolReserves stateBeyondTarget
       = virtualSolReserves stateAtTarget
         + (7 / 10 - fee (calculateBuy stateAtTarget (7 / 10)))
   \<and> virtualTokenReserves stateBeyondTarget
       = virtualTokenReserves stateAtTarget - outputAmount (calculateBuy stateAtTarget (7 / 10))
   \<and> realSolReserves stateBeyondTarget
       = realSolReserves stateAtTarget + (7 / 10 - fee (calculateBuy stateAtTarget (7 / 10)))
   \<and> SLIPPAGE_TOLERANCE * 100 < slippage (calculateBuy initialState 10)
   \<and> executeBuy True initialState 10
       = Inl (SlippageTooHigh (slippage (calculateBuy initialState 10)))
   \<and> executeBuy False initialState 1 = Inl WalletNotConnected"
proof -
  have h: "0 < virtualSolReserves stateAtTarget \<and> 0 < virtualTokenReserves stateAtTarget
     \<and> (0::real) < 7 / 10
     \<and> 1000 * (7 / 10 - 7 / 10 * FEE_RATE) \<le> 24 * virtualSolReserves stateAtTarget"
    by (simp add: stateAtTarget_def initialState_def FEE_RATE_def)
  have s: "SLIPPAGE_TOLERANCE * 100 < slippage (calculateBuy initialState 10)"
    by (simp add: calculateBuy_def Let_def initialState_def getCurrentPrice_def Math_abs_def
        hook_constants)
  have r: "REAL_SOL_RESERVES_TARGET \<le> realSolReserves stateAtTarget"
    by (simp add: stateAtTarget_def initialState_def hook_constants)
  show ?thesis
    using executeBuy_has_no_graduation_gate
      [of stateAtTarget "7 / 10" initialState 10 initialState 1] h s r buy_beyond_example
    by auto
qed

section \<open>The bisection of \<^verbatim>\<open>solveForSupply\<close>\<close>

lemma bisect_low_moves:
  assumes "\<And>m. low \<le> m \<Longrightarrow> m \<le> high \<Longrightarrow>
             calculateIntegral cfg m 0 - calculateIntegral cfg cur 0 \<le> target - tolerance"
      and "low \<le> high"
  shows "bisect cfg cur target n low high = Exhausted (high - (high - low) / 2 ^ n) high"
  using assms
proof (induction n arbitrary: low)
  case 0
  then show ?case by simp
next
  case (Suc n)
  let ?mid = "(low + high) / 2"
  have mid: "low \<le> ?mid" "?mid \<le> high" using Suc.prems(2) by simp_all
  have le: "calculateIntegral cfg ?mid 0 - calculateIntegral cfg cur 0 \<le> target - tolerance"
    using Suc.prems(1) mid by blast
  then have no: "\<not> Math_abs (calculateIntegral cfg ?mid 0 - calculateIntegral cfg cur 0 - target) < tolerance"
    and lt: "calculateIntegral cfg ?mid 0 - calculateIntegral cfg cur 0 < target"
    using tolerance_pos by (simp_all add: Math_abs_def)
  have "bisect cfg cur target n ?mid high = Exhausted (high - (high - ?mid) / 2 ^ n) high"
    using Suc.prems(1) mid by (intro Suc.IH) simp_all
  moreover have "(high - ?mid) / 2 ^ n = (high - low) / 2 ^ Suc n"
    by (simp add: field_simps)
  ultimately show ?case using no lt by (simp add: Let_def)
qed

lemma bisect_bracket:
  assumes "low \<le> high"
  shows "case bisect cfg cur target n low high of
           Converged mid \<Rightarrow> low \<le> mid \<and> mid \<le> high
         | Exhausted l h \<Rightarrow> low \<le> l \<and> l \<le> h \<and> h \<le> high"
  using assms
proof (induction n arbitrary: low high)
  case 0
  then show ?case by simp
next
  case (Suc n)
  let ?mid = "(low + high) / 2"
  have mid: "low \<le> ?mid" "?mid \<le> high" using Suc.prems by simp_all
  have a: "case bisect cfg cur target n ?mid high of
           Converged mid \<Rightarrow> low \<le> mid \<and> mid \<le> high
         | Exhausted l h \<Rightarrow> low \<le> l \<and> l \<le> h \<and> h \<le> high"
    using Suc.IH [OF mid(2)] mid(1) by (auto split: bisect_exit.splits)
  have b: "case bisect cfg cur target n low ?mid of
           Converged mid \<Rightarrow> low \<le> mid \<and> mid \<le> high
         | Exhausted l h \<Rightarrow> low \<le> l \<and> l \<le> h \<and> h \<le> high"
    using Suc.IH [OF mid(1)] mid(2) by (auto split: bisect_exit.splits)
  show ?case using a b mid by (simp add: Let_def)
qed

lemma default_integral:
  assumes "0 \<le> s"
  shows "calculateIntegral DEFAULT_BONDING_CURVE_CONFIG s x = 100000 / 3 * (s / 1000000000) ^ 3"
  using assms by (simp add: calculateIntegral_def DEFAULT_BONDING_CURVE_CONFIG_def Math_pow_def)

lemma default_integral_le:
  assumes "0 \<le> s" "s \<le> 1000000000"
  shows "calculateIntegral DEFAULT_BONDING_CURVE_CONFIG s x \<le> 100000 / 3"
proof -
  have "0 \<le> s / 1000000000" "s / 1000000000 \<le> 1" using assms by simp_all
  then have "(s / 1000000000) ^ 3 \<le> 1" by (rule power_le_one)
  then show ?thesis using assms(1) by (simp add: default_integral)
qed

lemma default_integral_900: "calculateIntegral DEFAULT_BONDING_CURVE_CONFIG 900000000 x = 24300"
  by (simp add: default_integral power3_eq_cube)

lemma default_bisect_exhausted:
  "bisect DEFAULT_BONDING_CURVE_CONFIG 900000000 24300 100 900000000 1000000000
     = Exhausted (1000000000 - 100000000 / 2 ^ 100) 1000000000"
proof -
  have "bisect DEFAULT_BONDING_CURVE_CONFIG 900000000 24300 100 900000000 1000000000
     = Exhausted (1000000000 - (1000000000 - 900000000) / 2 ^ 100) 1000000000"
  proof (rule bisect_low_moves)
    fix m :: real assume "900000000 \<le> m" "m \<le> 1000000000"
    then have "calculateIntegral DEFAULT_BONDING_CURVE_CONFIG m 0 \<le> 100000 / 3"
      by (intro default_integral_le) simp_all
    then show "calculateIntegral DEFAULT_BONDING_CURVE_CONFIG m 0
          - calculateIntegral DEFAULT_BONDING_CURVE_CONFIG 900000000 0 \<le> 24300 - tolerance"
      by (simp add: default_integral_900 tolerance_def)
  qed simp
  then show ?thesis by simp
qed

text \<open>
  Claim C3, as stated: a bisection that has not met the tolerance after 100 iterations
  ends in an error. With the default configuration and a supply of 900 million the
  target, the integral at the current supply, is 24300, more than the curve has left
  below \<open>maxSupply\<close>; the loop runs out of iterations, and \<^verbatim>\<open>solveForSupply\<close>
  returns a supply, from which \<^verbatim>\<open>calculateBuyAmount\<close> reports an amount of tokens.
\<close>

theorem bisection_failure_counterexample:
  "calculateIntegral DEFAULT_BONDING_CURVE_CONFIG 900000000 0 = 24300
   \<and> bisect DEFAULT_BONDING_CURVE_CONFIG 900000000 24300 100 900000000
        (maxSupply DEFAULT_BONDING_CURVE_CONFIG)
      = Exhausted (1000000000 - 100000000 / 2 ^ 100) 1000000000
   \<and> solveForSupply DEFAULT_BONDING_CURVE_CONFIG 900000000 24300
      = 1000000000 - 100000000 / 2 ^ 101
   \<and> TradeCalculation.outputAmount
        (calculateBuyAmount DEFAULT_BONDING_CURVE_CONFIG (1 / 100) 1 900000000)
      = 100000000 - 100000000 / 2 ^ 101"
proof -
  have m: "maxSupply DEFAULT_BONDING_CURVE_CONFIG = 1000000000"
    by (simp add: DEFAULT_BONDING_CURVE_CONFIG_def)
  have s: "solveForSupply DEFAULT_BONDING_CURVE_CONFIG 900000000 24300
      = 1000000000 - 100000000 / 2 ^ 101"
    unfolding solveForSupply_def m default_bisect_exhausted by simp
  show ?thesis
    by (simp add: m s default_bisect_exhausted default_integral_900 calculateBuyAmount_def Let_def)
qed

text \<open>
  Claim C3, amended. When the loop runs out of its 100 iterations with the bracket
  \<open>[low, high]\<close>, \<^verbatim>\<open>solveForSupply\<close> returns the midpoint \<open>(low + high) / 2\<close>, a
  supply between \<open>currentSupply\<close> and \<open>maxSupply\<close> whenever
  \<open>currentSupply \<le> maxSupply\<close>.
\<close>

theorem solveForSupply_exhausted_returns_midpoint:
  assumes "bisect cfg currentSupply targetIntegral 100 currentSupply (maxSupply cfg)
           = Exhausted low high"
  shows "solveForSupply cfg currentSupply targetIntegral = (low + high) / 2
         \<and> (currentSupply \<le> maxSupply cfg \<longrightarrow>
              currentSupply \<le> (low + high) / 2 \<and> (low + high) / 2 \<le> maxSupply cfg)"
proof -
  have "currentSupply \<le> maxSupply cfg \<Longrightarrow>
        currentSupply \<le> low \<and> low \<le> high \<and> high \<le> maxSupply cfg"
    using bisect_bracket [of currentSupply "maxSupply cfg" cfg currentSupply targetIntegral 100]
      assms by simp
  then show ?thesis using assms by (auto simp: solveForSupply_def)
qed

theorem solveForSupply_exhausted_returns_midpoint_witness:
  "bisect DEFAULT_BONDING_CURVE_CONFIG 900000000 24300 100 900000000
        (maxSupply DEFAULT_BONDING_CURVE_CONFIG)
      = Exhausted (1000000000 - 100000000 / 2 ^ 100) 1000000000
   \<and> solveForSupply DEFAULT_BONDING_CURVE_CONFIG 900000000 24300
      = ((1000000000 - 100000000 / 2 ^ 100) + 1000000000) / 2
   \<and> 900000000 \<le> maxSupply DEFAULT_BONDING_CURVE_CONFIG
   \<and> 900000000 \<le> ((1000000000 - 100000000 / 2 ^ 100) + 1000000000) / (2::real)
   \<and> ((1000000000 - 100000000 / 2 ^ 100) + 1000000000) / 2
        \<le> maxSupply DEFAULT_BONDING_CURVE_CONFIG"
proof -
  have m: "maxSupply DEFAULT_BONDING_CURVE_CONFIG = 1000000000"
    by (simp add: DEFAULT_BONDING_CURVE_CONFIG_def)
  have h: "bisect DEFAULT_BONDING_CURVE_CONFIG 900000000 24300 100 900000000
        (maxSupply DEFAULT_BONDING_CURVE_CONFIG)
      = Exhausted (1000000000 - 100000000 / 2 ^ 100) 1000000000"
    unfolding m by (rule default_bisect_exhausted)
  show ?thesis
    using solveForSupply_exhausted_returns_midpoint [OF h] h by (simp add: m)
qed


section \<open>The integral at exponent 1\<close>

lemma ln_three_halves_pos: "0 < ln (3 / 2 :: real)"
  by (rule ln_gt_zero) simp

text \<open>
  Claim C5: at \<open>k = 1\<close> the cost of moving the supply from \<open>s0\<close> to \<open>s1\<close> is
  \<open>initialPrice * maxSupply * ln ((s1 + maxSupply) / (s0 + maxSupply))\<close>. The branch of
  \<^verbatim>\<open>calculateIntegral\<close> for \<open>k = 1\<close> multiplies the logarithm by the supply where
  the formula has \<open>maxSupply\<close>: in scenario B the move from 0 to 50 costs
  \<open>50 * ln (3/2)\<close> by the branch and \<open>100 * ln (3/2)\<close> by the formula.
\<close>

theorem log_integral_branch_diverges:
  "k scenarioB = 1
   \<and> calculateIntegral scenarioB 50 0 - calculateIntegral scenarioB 0 0 = 50 * ln (3 / 2)
   \<and> initialPrice scenarioB * maxSupply scenarioB
        * ln ((50 + maxSupply scenarioB) / (0 + maxSupply scenarioB)) = 100 * ln (3 / 2)
   \<and> calculateIntegral scenarioB 50 0 - calculateIntegral scenarioB 0 0
        \<noteq> initialPrice scenarioB * maxSupply scenarioB
            * ln ((50 + maxSupply scenarioB) / (0 + maxSupply scenarioB))"
  using ln_three_halves_pos
  by (simp add: calculateIntegral_def scenarioB_def Math_log_def)

section \<open>Selling the whole supply\<close>

lemma calculateSellAmount_rejects_iff:
  "calculateSellAmount cfg feeRate tokenAmount currentSupply = Inl CannotSellMoreThanSupply
   \<longleftrightarrow> tokenAmount \<ge> currentSupply"
  by (simp add: calculateSellAmount_def Let_def)

text \<open>
  Claim C7: a sell of more than the available supply is rejected, and a sell of at most
  the available supply is not. \<^verbatim>\<open>calculateSellAmount\<close> rejects with the message
  ``Cannot sell more tokens than current supply'' as soon as
  \<open>tokenAmount \<ge> currentSupply\<close>, so a sell of exactly the supply is rejected too, while
  \<^verbatim>\<open>validateTrade\<close> accepts the same sell.
\<close>

theorem oversell_boundary_rejected:
  "calculateSellAmount DEFAULT_BONDING_CURVE_CONFIG (1 / 100) 1000 1000
     = Inl CannotSellMoreThanSupply
   \<and> validateTrade DEFAULT_BONDING_CURVE_CONFIG (1 / 100) 1000 False 1000"
  by (simp add: calculateSellAmount_def validateTrade_def)

section \<open>Slippage and fee of a buy\<close>

text \<open>
  Claim C8, as stated: in both variants the slippage of a buy is
  \<open>((netIn / outputAmount) - priceBefore) / priceBefore * 100\<close>. For a buy of half a
  SOL in the initial state the hook reports 3.327225, the claim's formula gives 1.65.
\<close>

theorem slippage_counterexample:
  "slippage (calculateBuy initialState (1 / 2)) = 133089 / 40000
   \<and> ((1 / 2 - fee (calculateBuy initialState (1 / 2)))
         / outputAmount (calculateBuy initialState (1 / 2))
       - getCurrentPrice initialState) / getCurrentPrice initialState * 100 = 33 / 20
   \<and> slippage (calculateBuy initialState (1 / 2))
      \<noteq> ((1 / 2 - fee (calculateBuy initialState (1 / 2)))
            / outputAmount (calculateBuy initialState (1 / 2))
          - getCurrentPrice initialState) / getCurrentPrice initialState * 100"
  by (simp add: calculateBuy_def Let_def initialState_def getCurrentPrice_def Math_abs_def
      hook_constants)

text \<open>
  Claim C8, amended. \<^verbatim>\<open>calculateBuyAmount\<close> (power law) reports the slippage
  \<open>((netIn / outputAmount) - priceBefore) / priceBefore * 100\<close> with
  \<open>netIn = solAmount - fee\<close>; \<^verbatim>\<open>calculateBuy\<close> (constant product) reports the
  absolute value of its price impact, \<open>(newPrice - oldPrice) / oldPrice * 100\<close>.
\<close>

theorem slippage_amended:
  "TradeCalculation.slippage (calculateBuyAmount cfg feeRate q s)
     = ((q - TradeCalculation.fee (calculateBuyAmount cfg feeRate q s))
          / TradeCalculation.outputAmount (calculateBuyAmount cfg feeRate q s)
        - calculatePrice cfg s) / calculatePrice cfg s * 100
   \<and> slippage (calculateBuy st a) = Math_abs (priceImpact (calculateBuy st a))
   \<and> priceImpact (calculateBuy st a)
       = (newPrice (calculateBuy st a) - getCurrentPrice st) / getCurrentPrice st * 100"
  by (simp add: calculateBuyAmount_def calculateBuy_def Let_def)

text \<open>
  Claim C9, as stated: \<^verbatim>\<open>calculateBuyAmount\<close> fails for an input \<open>\<le> 0\<close>. For the
  input \<open>-1\<close> it returns a calculation, with the fee \<open>-0.01\<close>.
\<close>

theorem nonpositive_input_counterexample:
  "TradeCalculation.inputAmount
      (calculateBuyAmount DEFAULT_BONDING_CURVE_CONFIG (1 / 100) (- 1) 900000000) = - 1
   \<and> TradeCalculation.fee
      (calculateBuyAmount DEFAULT_BONDING_CURVE_CONFIG (1 / 100) (- 1) 900000000) = - 1 / 100
   \<and> TradeCalculation.outputAmount
      (calculateBuyAmount DEFAULT_BONDING_CURVE_CONFIG (1 / 100) (- 1) 900000000)
      = 100000000 - 100000000 / 2 ^ 101"
proof -
  have m: "maxSupply DEFAULT_BONDING_CURVE_CONFIG = 1000000000"
    by (simp add: DEFAULT_BONDING_CURVE_CONFIG_def)
  have s: "solveForSupply DEFAULT_BONDING_CURVE_CONFIG 900000000 24300
      = 1000000000 - 100000000 / 2 ^ 101"
    unfolding solveForSupply_def m default_bisect_exhausted by simp
  show ?thesis
    by (simp add: s default_integral_900 calculateBuyAmount_def Let_def)
qed

text \<open>
  Claim C9, amended. The rejection of an amount \<open>\<le> 0\<close> is \<^verbatim>\<open>validateTrade\<close>'s,
  which returns false for it; \<^verbatim>\<open>calculateBuyAmount\<close> checks nothing and, for every
  input, reports the input, the fee \<open>solAmount * feeRate\<close> and a slippage computed from
  \<open>netIn = solAmount - fee\<close>.
\<close>

theorem nonpositive_input_amended:
  "(amount \<le> 0 \<longrightarrow> \<not> validateTrade cfg feeRate amount isBuy s)
   \<and> TradeCalculation.inputAmount (calculateBuyAmount cfg feeRate q s) = q
   \<and> TradeCalculation.fee (calculateBuyAmount cfg feeRate q s) = q * feeRate
   \<and> TradeCalculation.slippage (calculateBuyAmount cfg feeRate q s)
       = ((q - q * feeRate) / TradeCalculation.outputAmount (calculateBuyAmount cfg feeRate q s)
          - calculatePrice cfg s) / calculatePrice cfg s * 100"
  by (simp add: validateTrade_def calculateBuyAmount_def Let_def)

theorem nonpositive_input_amended_witness:
  "(- 1 :: real) \<le> 0
   \<and> \<not> validateTrade DEFAULT_BONDING_CURVE_CONFIG (1 / 100) (- 1) True 900000000
   \<and> TradeCalculation.fee
        (calculateBuyAmount DEFAULT_BONDING_CURVE_CONFIG (1 / 100) 2 900000000) = 2 * (1 / 100)"
  using nonpositive_input_amended [of "- 1" DEFAULT_BONDING_CURVE_CONFIG "1 / 100" True
      900000000 2]
  by simp


section \<open>The product of the virtual reserves\<close>

lemma executeBuy_preserves_k:
  assumes "0 < virtualSolReserves st" "0 < q" "executeBuy c st q = Inr st'"
  shows "virtualSolReserves st' * virtualTokenReserves st'
         = virtualSolReserves st * virtualTokenReserves st"
proof -
  have "0 < q - q * FEE_RATE" using assms(2) by (simp add: FEE_RATE_def)
  then have "virtualSolReserves st + (q - q * FEE_RATE) \<noteq> 0" using assms(1) by simp
  then show ?thesis by (simp add: executeBuy_Inr [OF assms(3)])
qed

lemma calculateSell_fee:
  "fee (calculateSell st b)
   = (virtualSolReserves st
      - virtualSolReserves st * virtualTokenReserves st / (virtualTokenReserves st + b))
     * FEE_RATE"
  by (simp add: calculateSell_def Let_def)

lemma sell_product_algebra:
  fixes vs vt b f :: real
  assumes "vt + b \<noteq> 0"
  shows "(vs - ((vs - vs * vt / (vt + b)) - (vs - vs * vt / (vt + b)) * f)) * (vt + b)
         = vs * vt + (vs - vs * vt / (vt + b)) * f * (vt + b)"
proof -
  define g where "g = vs - vs * vt / (vt + b)"
  have "(vs - g) * (vt + b) = vs * vt" using assms by (simp add: g_def)
  then have "(vs - (g - g * f)) * (vt + b) = vs * vt + g * f * (vt + b)"
    by (simp add: algebra_simps)
  then show ?thesis unfolding g_def .
qed

lemma executeSell_product:
  assumes "0 < virtualTokenReserves st" "0 < b" "executeSell c st b = Inr st'"
  shows "virtualSolReserves st' * virtualTokenReserves st'
         = virtualSolReserves st * virtualTokenReserves st
           + fee (calculateSell st b) * (virtualTokenReserves st + b)"
proof -
  have nz: "virtualTokenReserves st + b \<noteq> 0" using assms(1,2) by simp
  show ?thesis
    unfolding calculateSell_fee using sell_product_algebra [OF nz]
    by (simp add: executeSell_Inr [OF assms(3)])
qed

text \<open>
  Claim C4: a buy and a sell leave the product of the virtual reserves as it was.
  \<^verbatim>\<open>executeBuy\<close> does (\<open>executeBuy_preserves_k\<close>). \<^verbatim>\<open>executeSell\<close> takes only
  the amount paid out, the gross amount less the fee, from the virtual SOL reserve, so
  the product grows by the fee times the new token reserve (\<open>executeSell_product\<close>).
  Selling back the tokens of the example buy takes the product from 32190000000 to
  32195311350, and the price of the new state is not the \<^verbatim>\<open>newPrice\<close> that
  \<^verbatim>\<open>calculateSell\<close> announced.
\<close>

theorem sell_breaks_k:
  "executeSell True stateAfterBuy (35409000000 / 2033) = Inr stateAfterSell
   \<and> virtualSolReserves stateAfterBuy * virtualTokenReserves stateAfterBuy = 32190000000
   \<and> virtualSolReserves stateAfterSell * virtualTokenReserves stateAfterSell = 32195311350
   \<and> newPrice (calculateSell stateAfterBuy (35409000000 / 2033)) = 30 / 1073000000
   \<and> getCurrentPrice stateAfterSell = 600099 / 20000 / 1073000000"
  using sell_example
  by (simp add: calculateSell_def Let_def stateAfterBuy_def stateAfterSell_def
      initialState_def getCurrentPrice_def hook_constants)

section \<open>A buy followed by the sell of its tokens\<close>

lemma hook_round_trip:
  assumes "0 < virtualSolReserves st" "0 < virtualTokenReserves st" "0 < q"
      and "0 \<le> realSolReserves st"
      and b: "executeBuy c st q = Inr st1"
      and s: "executeSell c st1 (outputAmount (calculateBuy st q)) = Inr st2"
  shows "virtualTokenReserves st2 = virtualTokenReserves st
         \<and> totalSupply st2 = totalSupply st
         \<and> realSolReserves st2 = realSolReserves st + (q - q * FEE_RATE) * FEE_RATE
         \<and> fee (calculateSell st1 (outputAmount (calculateBuy st q))) = (q - q * FEE_RATE) * FEE_RATE
         \<and> \<bar>realSolReserves st2 - realSolReserves st\<bar>
            \<le> fee (calculateBuy st q) + fee (calculateSell st1 (outputAmount (calculateBuy st q)))"
proof -
  define n where "n = q - q * FEE_RATE"
  define vs where "vs = virtualSolReserves st"
  define vt where "vt = virtualTokenReserves st"
  have n: "0 < n" using assms(3) by (simp add: n_def FEE_RATE_def)
  have nz: "vs + n \<noteq> 0" "vt \<noteq> 0" "vs \<noteq> 0" using assms(1,2) n by (simp_all add: vs_def vt_def)
  have out: "outputAmount (calculateBuy st q) = vt - vs * vt / (vs + n)"
    by (simp add: calculateBuy_outputAmount n_def vs_def vt_def)
  have st1: "virtualSolReserves st1 = vs + n" "virtualTokenReserves st1 = vs * vt / (vs + n)"
    "realSolReserves st1 = realSolReserves st + n" "totalSupply st1 = totalSupply st"
    by (simp_all add: executeBuy_Inr [OF b] n_def vs_def vt_def)
  have returned: "vs * vt / (vs + n) + (vt - vs * vt / (vs + n)) = vt" by simp
  have gross: "(vs + n) - (vs + n) * (vs * vt / (vs + n)) / vt = n"
    using nz by simp
  have f2: "fee (calculateSell st1 (outputAmount (calculateBuy st q))) = n * FEE_RATE"
    unfolding calculateSell_fee out st1 returned gross by (rule refl)
  have r2: "realSolReserves st2 = Math_max 0 (realSolReserves st + n - (n - n * FEE_RATE))"
    and v2: "virtualTokenReserves st2 = vt" and t2: "totalSupply st2 = totalSupply st"
    unfolding executeSell_Inr [OF s] out st1 returned gross by (simp_all add: st1)
  have p: "0 \<le> n * FEE_RATE" using n by (simp add: FEE_RATE_def)
  then have r: "realSolReserves st2 = realSolReserves st + n * FEE_RATE"
    unfolding r2 using assms(4) by (simp add: Math_max_def)
  have "0 \<le> fee (calculateBuy st q)"
    using assms(3) by (simp add: calculateBuy_fee FEE_RATE_def)
  then show ?thesis
    using r v2 t2 f2 p by (simp add: n_def vt_def)
qed

lemma calculateBuyAmount_ignores_solAmount:
  "TradeCalculation.outputAmount (calculateBuyAmount cfg feeRate q s)
   = TradeCalculation.outputAmount (calculateBuyAmount cfg feeRate q' s)"
  by (simp add: calculateBuyAmount_def Let_def calculateIntegral_def)

lemma default_integral_500: "calculateIntegral DEFAULT_BONDING_CURVE_CONFIG 500000000 x = 12500 / 3"
  by (simp add: default_integral power3_eq_cube)

lemma default_bisect_converged:
  "bisect DEFAULT_BONDING_CURVE_CONFIG 500000000 (12500 / 3) 100 500000000 1000000000
     = Converged (86581115277447265625 / 137438953472)"
  by (simp add: eval_nat_numeral Let_def default_integral Math_abs_def tolerance_def)

lemma default_buy_500:
  "TradeCalculation.outputAmount
      (calculateBuyAmount DEFAULT_BONDING_CURVE_CONFIG (1 / 100) q 500000000)
   = 17861638541447265625 / 137438953472"
proof -
  have m: "maxSupply DEFAULT_BONDING_CURVE_CONFIG = 1000000000"
    by (simp add: DEFAULT_BONDING_CURVE_CONFIG_def)
  have "solveForSupply DEFAULT_BONDING_CURVE_CONFIG 500000000 (12500 / 3)
        = 86581115277447265625 / 137438953472"
    unfolding solveForSupply_def m default_bisect_converged by simp
  then show ?thesis
    by (simp add: calculateBuyAmount_def Let_def default_integral_500)
qed

lemma default_buy_fee:
  "TradeCalculation.fee (calculateBuyAmount cfg feeRate q s) = q * feeRate"
  by (simp add: calculateBuyAmount_def Let_def)

lemma default_sell_back:
  "case calculateSellAmount DEFAULT_BONDING_CURVE_CONFIG (1 / 100)
             (17861638541447265625 / 137438953472)
             (500000000 + 17861638541447265625 / 137438953472) of
         Inl e \<Rightarrow> False
       | Inr sell \<Rightarrow> 4124 < TradeCalculation.outputAmount sell
            \<and> TradeCalculation.fee sell < 42"
  by (simp add: calculateSellAmount_def Let_def default_integral Math_abs_def power3_eq_cube)

text \<open>
  Claim C6: a buy followed by the sell of the tokens bought returns the reserves to
  where they were, up to the fees; no value is created. The hook does so
  (\<open>hook_round_trip\<close>). In the power-law class the amount of tokens of a buy does not
  depend on the amount paid (\<open>calculateBuyAmount_ignores_solAmount\<close>), because
  \<^verbatim>\<open>calculateIntegral\<close> ignores its second parameter: with the default
  configuration at a supply of 500 million, a buy for 1 SOL yields tokens that sell
  for more than 4124 SOL net, the two fees together staying under 43 SOL.
\<close>

theorem round_trip_creates_value:
  "TradeCalculation.outputAmount
      (calculateBuyAmount DEFAULT_BONDING_CURVE_CONFIG (1 / 100) 1 500000000)
     = 17861638541447265625 / 137438953472
   \<and> TradeCalculation.fee
      (calculateBuyAmount DEFAULT_BONDING_CURVE_CONFIG (1 / 100) 1 500000000) = 1 / 100
   \<and> (case calculateSellAmount DEFAULT_BONDING_CURVE_CONFIG (1 / 100)
             (17861638541447265625 / 137438953472)
             (500000000 + 17861638541447265625 / 137438953472) of
         Inl e \<Rightarrow> False
       | Inr sell \<Rightarrow> 4124 < TradeCalculation.outputAmount sell
            \<and> TradeCalculation.fee sell < 42)"
  using default_sell_back by (simp only: default_buy_500 default_buy_fee) simp


end
